theory Spec2Isabelle
  imports Complex_Main "HOL-Library.Multiset"
begin

section \<open>JavaScript strings and arrays\<close>

text \<open>
  Strings are \<^typ>\<open>string\<close>.  A JavaScript value that may be \<open>undefined\<close> is an
  \<open>option\<close>; the empty string is falsy, which the helpers below spell out wherever
  the source tests a string for truthiness.
\<close>

definition startsWith :: "string \<Rightarrow> string \<Rightarrow> bool" where
  "startsWith s pre = (take (length pre) s = pre)"

text \<open>\<open>Array.prototype.join\<close>.\<close>

fun join_with :: "string \<Rightarrow> string list \<Rightarrow> string" where
  "join_with s [] = []"
| "join_with s [x] = x"
| "join_with s (x # y # ys) = x @ s @ join_with s (y # ys)"

text \<open>\<open>String.prototype.split\<close> on a one-character separator.\<close>

fun split_on :: "char \<Rightarrow> string \<Rightarrow> string list" where
  "split_on c [] = [[]]"
| "split_on c (x # xs) =
     (if x = c then [] # split_on c xs
      else (case split_on c xs of [] \<Rightarrow> [[x]] | s # ss \<Rightarrow> (x # s) # ss))"

text \<open>
  \<open>Array.prototype.findIndex\<close>: the index of the first element satisfying the
  predicate, \<open>-1\<close> when there is none.
\<close>

fun findIndex :: "('a \<Rightarrow> bool) \<Rightarrow> 'a list \<Rightarrow> int" where
  "findIndex P [] = -1"
| "findIndex P (x # xs) =
     (if P x then 0 else (let r = findIndex P xs in if r < 0 then -1 else r + 1))"

text \<open>
  \<open>Array.prototype.sort\<close> with a comparator.  ECMAScript requires the sort to be
  stable, and for a consistent comparator every stable sort returns the same array;
  the model is the stable insertion sort.  The comparator returns a JavaScript number.
\<close>

fun sort_insert :: "('a \<Rightarrow> 'a \<Rightarrow> real) \<Rightarrow> 'a \<Rightarrow> 'a list \<Rightarrow> 'a list" where
  "sort_insert cmp x [] = [x]"
| "sort_insert cmp x (y # ys) =
     (if cmp x y \<le> 0 then x # y # ys else y # sort_insert cmp x ys)"

fun js_sort :: "('a \<Rightarrow> 'a \<Rightarrow> real) \<Rightarrow> 'a list \<Rightarrow> 'a list" where
  "js_sort cmp [] = []"
| "js_sort cmp (x # xs) = sort_insert cmp x (js_sort cmp xs)"

text \<open>
  \<open>String.prototype.toLowerCase\<close> and \<open>String.prototype.localeCompare\<close> depend on
  the Unicode tables and the collation of the host; they are parameters of the model.
\<close>

record strings =
  toLowerCase :: "string \<Rightarrow> string"
  localeCompare :: "string \<Rightarrow> string \<Rightarrow> real"

text \<open>
  What the sort needs of \<open>localeCompare\<close>: the sign of the result flips with the
  arguments, and "not after" is transitive.  Different strings may compare equal, as
  they do in the collation of the host.
\<close>

definition consistent_comparator :: "(string \<Rightarrow> string \<Rightarrow> real) \<Rightarrow> bool" where
  "consistent_comparator lc =
     ((\<forall>a b. (lc a b < 0) = (0 < lc b a)) \<and>
      (\<forall>a b c. lc a b \<le> 0 \<and> lc b c \<le> 0 \<longrightarrow> lc a c \<le> 0))"


text \<open>A concrete collation for evaluation: comparison by character code.\<close>

fun compare_codes :: "string \<Rightarrow> string \<Rightarrow> real" where
  "compare_codes [] [] = 0"
| "compare_codes [] (y # ys) = -1"
| "compare_codes (x # xs) [] = 1"
| "compare_codes (x # xs) (y # ys) =
     (if of_char x < (of_char y :: nat) then -1
      else if of_char y < (of_char x :: nat) then 1
      else compare_codes xs ys)"

definition ascii_lower :: "char \<Rightarrow> char" where
  "ascii_lower c =
     (case map_of (zip ''ABCDEFGHIJKLMNOPQRSTUVWXYZ'' ''abcdefghijklmnopqrstuvwxyz'') c of
        Some l \<Rightarrow> l
      | None \<Rightarrow> c)"

definition ascii_strings :: strings where
  "ascii_strings = \<lparr> toLowerCase = map ascii_lower, localeCompare = compare_codes \<rparr>"

text \<open>
  The collation of the host gives no weight to control characters:
  \<open>'a'.localeCompare('a\u0001')\<close> is \<open>0\<close>.  A second collation for evaluation shows this
  on the character U+0001 and compares by character code otherwise.
\<close>

definition strip_control :: "string \<Rightarrow> string" where
  "strip_control s = filter (\<lambda>c. c \<noteq> CHR 0x01) s"

definition control_blind :: strings where
  "control_blind = \<lparr> toLowerCase = map ascii_lower,
                     localeCompare = (\<lambda>a b. compare_codes (strip_control a) (strip_control b)) \<rparr>"


section \<open>The \<open>path\<close> module (POSIX flavour)\<close>

text \<open>
  The functions of Node's \<open>path.posix\<close> that the extension calls.  The character
  loops of the library are rendered on the list of segments between separators.
\<close>

definition sep :: string where
  "sep = ''/''"

definition isAbsolute :: "string \<Rightarrow> bool" where
  "isAbsolute p = (p \<noteq> [] \<and> hd p = CHR ''/'')"

text \<open>
  \<open>basename\<close>: trailing separators are dropped, then the characters after the last
  remaining separator are returned.
\<close>

definition basename :: "string \<Rightarrow> string" where
  "basename p =
     rev (takeWhile (\<lambda>c. c \<noteq> CHR ''/'') (dropWhile (\<lambda>c. c = CHR ''/'') (rev p)))"

text \<open>
  \<open>dirname\<close>: the library scans the indices \<open>length - 1\<close> down to \<open>1\<close>, skips the
  trailing separators and the last segment, and cuts at the separator before it.
\<close>

definition dirname :: "string \<Rightarrow> string" where
  "dirname p =
     (if p = [] then ''.''
      else
        let hasRoot = (hd p = CHR ''/'');
            scanned = dropWhile (\<lambda>c. c \<noteq> CHR ''/'')
                        (dropWhile (\<lambda>c. c = CHR ''/'') (rev (tl p)))
        in if scanned = [] then (if hasRoot then ''/'' else ''.'')
           else if hasRoot \<and> length scanned = 1 then ''//''
           else hd p # rev (tl scanned))"

text \<open>
  \<open>normalizeString\<close>: empty segments and \<open>.\<close> are skipped; \<open>..\<close> removes the last
  kept segment unless there is none or it is \<open>..\<close> itself, in which case it is kept
  when the path may climb above its start and dropped otherwise.
\<close>

definition normalize_step :: "bool \<Rightarrow> string list \<Rightarrow> string \<Rightarrow> string list" where
  "normalize_step allowAboveRoot res seg =
     (if seg = [] \<or> seg = ''.'' then res
      else if seg = ''..'' then
        (if res \<noteq> [] \<and> last res \<noteq> ''..'' then butlast res
         else if allowAboveRoot then res @ [''..''] else res)
      else res @ [seg])"

definition normalize_segments :: "string \<Rightarrow> bool \<Rightarrow> string list" where
  "normalize_segments p allowAboveRoot =
     foldl (normalize_step allowAboveRoot) [] (split_on CHR ''/'' p)"

definition normalizeString :: "string \<Rightarrow> bool \<Rightarrow> string" where
  "normalizeString p allowAboveRoot = join_with ''/'' (normalize_segments p allowAboveRoot)"

definition normalize :: "string \<Rightarrow> string" where
  "normalize p =
     (if p = [] then ''.''
      else
        let isAbs = (hd p = CHR ''/'');
            trailingSeparator = (last p = CHR ''/'');
            q = normalizeString p (\<not> isAbs)
        in if q = [] then (if isAbs then ''/'' else if trailingSeparator then ''./'' else ''.'')
           else
             let q' = (if trailingSeparator then q @ ''/'' else q)
             in if isAbs then CHR ''/'' # q' else q')"

text \<open>\<open>path.join(...args)\<close>: the non-empty arguments joined by \<open>/\<close>, normalised.\<close>

definition path_join :: "string list \<Rightarrow> string" where
  "path_join args =
     (let parts = filter (\<lambda>a. a \<noteq> []) args
      in if parts = [] then ''.'' else normalize (join_with ''/'' parts))"

text \<open>
  \<open>path.resolve(p)\<close> with one argument: a relative path is resolved against the
  working directory of the process, which is a parameter.  The result is the pair
  of the absolute flag and the normalised segments.
\<close>

definition resolve_segments :: "string \<Rightarrow> string \<Rightarrow> bool \<times> string list" where
  "resolve_segments cwd p =
     (let r1 = (if p = [] then [] else p @ ''/'');
          abs1 = isAbsolute p;
          r2 = (if abs1 \<or> cwd = [] then r1 else cwd @ ''/'' @ r1);
          resolvedAbsolute = (abs1 \<or> isAbsolute cwd)
      in (resolvedAbsolute, normalize_segments r2 (\<not> resolvedAbsolute)))"

definition resolve :: "string \<Rightarrow> string \<Rightarrow> string" where
  "resolve cwd p =
     (case resolve_segments cwd p of
        (resolvedAbsolute, segs) \<Rightarrow>
          if resolvedAbsolute then CHR ''/'' # join_with ''/'' segs
          else if segs \<noteq> [] then join_with ''/'' segs else ''.'')"

text \<open>
  \<open>path.relative(from, to)\<close>: both paths are resolved, their common leading segments
  are dropped, and the result climbs out of what is left of \<open>from\<close> and descends
  into what is left of \<open>to\<close>.
\<close>

fun drop_common :: "string list \<Rightarrow> string list \<Rightarrow> string list \<times> string list" where
  "drop_common (x # xs) (y # ys) = (if x = y then drop_common xs ys else (x # xs, y # ys))"
| "drop_common xs ys = (xs, ys)"

definition relative :: "string \<Rightarrow> string \<Rightarrow> string \<Rightarrow> string" where
  "relative cwd from to =
     (if from = to then []
      else
        case drop_common (snd (resolve_segments cwd from)) (snd (resolve_segments cwd to)) of
          (fromRest, toRest) \<Rightarrow>
            join_with ''/'' (replicate (length fromRest) ''..'' @ toRest))"


section \<open>The data model\<close>

datatype kind = File | Folder

text \<open>
  An element of \<open>provider.items\<close>: \<open>{ path, type, category? }\<close>.  A missing
  \<open>category\<close> is \<open>None\<close>.
\<close>

record entry =
  path :: string
  etype :: kind
  category :: "string option"

datatype sort_order = ASC | DESC | MODIFIED | MANUAL

datatype clipOp = Cut | Copy

text \<open>Truthiness of an optional string: \<open>undefined\<close> and \<open>''\<close> are falsy.\<close>

definition truthy :: "string option \<Rightarrow> bool" where
  "truthy v = (v \<noteq> None \<and> v \<noteq> Some [])"

text \<open>
  The three classes of tree items.  A \<open>FavoriteItem\<close> carries \<open>itemPath\<close> (also stored
  as \<open>value\<close>), \<open>type\<close> and \<open>category\<close>; a \<open>Category\<close> carries its \<open>name\<close> only; a
  \<open>Resource\<close> carries \<open>label\<close>, whether it is collapsible, \<open>value\<close> and \<open>contextValue\<close>.
\<close>

datatype node =
    FavoriteItem string kind "string option"
  | Category string
  | Resource string bool string string

text \<open>\<open>r?.value || r?.itemPath\<close>, with \<open>None\<close> for a falsy result.\<close>

fun valueOrItemPath :: "node option \<Rightarrow> string option" where
  "valueOrItemPath None = None"
| "valueOrItemPath (Some (FavoriteItem itemPath t c)) = (if itemPath = [] then None else Some itemPath)"
| "valueOrItemPath (Some (Category n)) = None"
| "valueOrItemPath (Some (Resource l c v cv)) = (if v = [] then None else Some v)"

text \<open>\<open>resource?.category\<close>.\<close>

fun nodeCategory :: "node option \<Rightarrow> string option" where
  "nodeCategory (Some (FavoriteItem itemPath t c)) = c"
| "nodeCategory _ = None"

fun nodeLabel :: "node \<Rightarrow> string" where
  "nodeLabel (FavoriteItem itemPath t c) = basename itemPath"
| "nodeLabel (Category n) = n"
| "nodeLabel (Resource l c v cv) = l"


section \<open>The file system\<close>

text \<open>
  The file system is external.  The handlers are parametric in its state \<open>'fs\<close> and in
  the operations they call; an operation that can throw returns the error message
  together with the state it leaves behind.
\<close>

record stats =
  isDirectory :: bool
  mtimeMs :: real

datatype 'fs io = Done 'fs | Throws string 'fs

record 'fs fs_ops =
  existsSync :: "'fs \<Rightarrow> string \<Rightarrow> bool"
  statSync :: "'fs \<Rightarrow> string \<Rightarrow> stats option"
  readdirSync :: "'fs \<Rightarrow> string \<Rightarrow> string list option"
  renameSync :: "'fs \<Rightarrow> string \<Rightarrow> string \<Rightarrow> 'fs io"
  fs_copy :: "'fs \<Rightarrow> string \<Rightarrow> string \<Rightarrow> 'fs io"


section \<open>Sort policy\<close>

text \<open>\<open>_getMtime\<close>: \<open>0\<close> when the path does not exist or \<open>stat\<close> throws.\<close>

definition getMtime :: "'fs fs_ops \<Rightarrow> 'fs \<Rightarrow> string \<Rightarrow> real" where
  "getMtime ops fs filePath =
     (if existsSync ops fs filePath
      then (case statSync ops fs filePath of Some st \<Rightarrow> mtimeMs st | None \<Rightarrow> 0)
      else 0)"

text \<open>
  \<open>_sortItems\<close>.  The key of an item is \<open>item.path || item\<close>; for an entry with an
  empty path that is the entry object itself, for which \<open>_getMtime\<close> gives \<open>0\<close> and on
  which \<open>path.basename\<close> throws a \<open>TypeError\<close> as soon as the comparator runs, that
  is, as soon as there are two items.
\<close>

datatype error = TypeError

definition sortItems ::
  "'fs fs_ops \<Rightarrow> 'fs \<Rightarrow> strings \<Rightarrow> sort_order \<Rightarrow> entry list \<Rightarrow> error + entry list" where
  "sortItems ops fs S order its =
     (if order = MANUAL \<or> its = [] then Inr its
      else if order = MODIFIED then
        Inr (js_sort (\<lambda>a b.
               (if path b = [] then 0 else getMtime ops fs (path b)) -
               (if path a = [] then 0 else getMtime ops fs (path a))) its)
      else if 2 \<le> length its \<and> (\<exists>e \<in> set its. path e = []) then Inl TypeError
      else if order = ASC then
        Inr (js_sort (\<lambda>a b.
               localeCompare S (toLowerCase S (basename (path a)))
                               (toLowerCase S (basename (path b)))) its)
      else
        Inr (js_sort (\<lambda>a b.
               localeCompare S (toLowerCase S (basename (path b)))
                               (toLowerCase S (basename (path a)))) its))"

text \<open>
  \<open>_getFilesystemChildren\<close>.  \<open>itemStat\<close> is the entry of the \<open>itemStats\<close> map, which
  is filled for every kept name before the sort; a failing \<open>readdirSync\<close> is caught
  and gives the empty list.
\<close>

definition itemStat :: "'fs fs_ops \<Rightarrow> 'fs \<Rightarrow> string \<Rightarrow> string \<Rightarrow> bool \<times> real \<times> string" where
  "itemStat ops fs dirPath item =
     (let fullPath = path_join [dirPath, item]
      in case statSync ops fs fullPath of
           Some st \<Rightarrow> (isDirectory st, mtimeMs st, fullPath)
         | None \<Rightarrow> (False, 0, fullPath))"

definition childCompare ::
  "strings \<Rightarrow> sort_order \<Rightarrow> (string \<Rightarrow> bool \<times> real \<times> string) \<Rightarrow> string \<Rightarrow> string \<Rightarrow> real" where
  "childCompare S order itemStats a b =
     (case (itemStats a, itemStats b) of
        ((isDirA, mtimeA, _), (isDirB, mtimeB, _)) \<Rightarrow>
          if isDirA \<and> \<not> isDirB then -1
          else if \<not> isDirA \<and> isDirB then 1
          else if order = MODIFIED then mtimeB - mtimeA
          else if order = DESC then localeCompare S (toLowerCase S b) (toLowerCase S a)
          else localeCompare S (toLowerCase S a) (toLowerCase S b))"

definition getFilesystemChildren ::
  "'fs fs_ops \<Rightarrow> strings \<Rightarrow> 'fs \<Rightarrow> sort_order \<Rightarrow> string \<Rightarrow> node list" where
  "getFilesystemChildren ops S fs order dirPath =
     (case readdirSync ops fs dirPath of
        None \<Rightarrow> []
      | Some names \<Rightarrow>
          let filtered = filter (\<lambda>item. \<not> startsWith item ''.'') names;
              itemStats = itemStat ops fs dirPath;
              sorted = js_sort (childCompare S order itemStats) filtered
          in map (\<lambda>item.
                    case itemStats item of
                      (isDir, _, fullPath) \<Rightarrow>
                        Resource item isDir fullPath
                          (if isDir then ''resource.dir'' else ''resource''))
                 sorted)"

section \<open>The favorites store\<close>

datatype message = InformationMessage string | WarningMessage string | ErrorMessage string

text \<open>
  The state of the extension: the fields of the provider (\<open>items\<close>, \<open>categoryList\<close>,
  \<open>sortOrder\<close>), the module-level clipboard (\<open>clipboardPaths\<close>, \<open>clipboardOperation\<close>,
  \<open>null\<close> being \<open>None\<close>), the text written to the system clipboard, and the
  notifications shown so far.  The handlers run one at a time, so each is a function
  from state to state.  Writing the configuration and firing the refresh event change
  nothing of this state and are left out; so is the status-bar text.
\<close>

record state =
  items :: "entry list"
  categoryList :: "string list"
  sortOrder :: sort_order
  clipboardPaths :: "string list"
  clipboardOperation :: "clipOp option"
  systemClipboard :: "string option"
  messages :: "message list"

definition notify :: "message \<Rightarrow> state \<Rightarrow> state" where
  "notify m st = st\<lparr>messages := messages st @ [m]\<rparr>"

text \<open>A handler either returns or, when an exception escapes it, is rejected.\<close>

datatype outcome = Returned | Rejected string

definition addFavorite :: "string \<Rightarrow> kind \<Rightarrow> state \<Rightarrow> bool \<times> state" where
  "addFavorite itemPath t st =
     (if \<exists>item \<in> set (items st). path item = itemPath
      then (False, notify (InformationMessage (''Already in favorites: '' @ basename itemPath)) st)
      else (True, st\<lparr>items := items st @ [\<lparr>path = itemPath, etype = t, category = None\<rparr>]\<rparr>))"

definition removeFavorite :: "string \<Rightarrow> state \<Rightarrow> state" where
  "removeFavorite itemPath st =
     (let index = findIndex (\<lambda>item. path item = itemPath) (items st)
      in if index > -1
         then st\<lparr>items := take (nat index) (items st) @ drop (nat index + 1) (items st)\<rparr>
         else st)"

text \<open>
  \<open>items.find(f => f.path === p)\<close> followed by an assignment to a field of the entry
  found: the entry is an object shared with \<open>provider.items\<close>, so the first entry with
  that path changes where it stands.
\<close>

fun updateFirst :: "string \<Rightarrow> (entry \<Rightarrow> entry) \<Rightarrow> entry list \<Rightarrow> entry list" where
  "updateFirst p f [] = []"
| "updateFirst p f (item # rest) =
     (if path item = p then f item # rest else item # updateFirst p f rest)"

definition addCategory :: "string \<Rightarrow> state \<Rightarrow> state" where
  "addCategory name st =
     (if name \<notin> set (categoryList st) then st\<lparr>categoryList := categoryList st @ [name]\<rparr> else st)"

definition moveToCategory :: "string \<Rightarrow> string \<Rightarrow> state \<Rightarrow> state" where
  "moveToCategory itemPath categoryName st =
     (if \<exists>item \<in> set (items st). path item = itemPath
      then st\<lparr>items := updateFirst itemPath (\<lambda>item. item\<lparr>category := Some categoryName\<rparr>) (items st),
              categoryList := (if categoryName \<notin> set (categoryList st)
                               then categoryList st @ [categoryName] else categoryList st)\<rparr>
      else st)"

definition moveToRoot :: "string \<Rightarrow> state \<Rightarrow> state" where
  "moveToRoot itemPath st =
     st\<lparr>items := updateFirst itemPath (\<lambda>item. item\<lparr>category := None\<rparr>) (items st)\<rparr>"

definition renameCategory :: "string \<Rightarrow> string \<Rightarrow> state \<Rightarrow> state" where
  "renameCategory oldName newName st =
     st\<lparr>items := map (\<lambda>item. if category item = Some oldName
                               then item\<lparr>category := Some newName\<rparr> else item) (items st),
        categoryList := (let index = findIndex (\<lambda>c. c = oldName) (categoryList st)
                         in if index > -1 then (categoryList st)[nat index := newName]
                            else categoryList st)\<rparr>"

definition deleteCategory :: "string \<Rightarrow> state \<Rightarrow> state" where
  "deleteCategory categoryName st =
     st\<lparr>items := map (\<lambda>item. if category item = Some categoryName
                               then item\<lparr>category := None\<rparr> else item) (items st),
        categoryList := (let index = findIndex (\<lambda>c. c = categoryName) (categoryList st)
                         in if index > -1
                            then take (nat index) (categoryList st) @ drop (nat index + 1) (categoryList st)
                            else categoryList st)\<rparr>"


section \<open>Commands\<close>

subsection \<open>Target resolution\<close>

text \<open>
  The host calls a tree command with the item the menu was opened on (\<open>resource\<close>) and
  the array of all selected items (\<open>selectedItems\<close>); from a key binding both are
  \<open>undefined\<close>.  \<open>selection\<close> is \<open>treeView.selection\<close>.

  \<open>copyPath\<close> and \<open>copyRelativePath\<close>:
  \<open>selectedItems?.length > 0 ? selectedItems : (resource ? [resource] : treeView.selection)\<close>.
\<close>

definition copyPath_items :: "node option \<Rightarrow> node list option \<Rightarrow> node list \<Rightarrow> node list" where
  "copyPath_items resource selectedItems selection =
     (case selectedItems of
        Some xs \<Rightarrow> if length xs > 0 then xs
                   else (case resource of Some r \<Rightarrow> [r] | None \<Rightarrow> selection)
      | None \<Rightarrow> (case resource of Some r \<Rightarrow> [r] | None \<Rightarrow> selection))"

text \<open>
  \<open>cut\<close>, \<open>copy\<close> and \<open>delete\<close> declare the parameter \<open>resource\<close> only, so the second
  argument of the call is dropped: \<open>resource ? [resource] : treeView.selection\<close>.
\<close>

definition cut_items :: "node option \<Rightarrow> node list option \<Rightarrow> node list \<Rightarrow> node list" where
  "cut_items resource selectedItems selection =
     (case resource of Some r \<Rightarrow> [r] | None \<Rightarrow> selection)"

text \<open>\<open>items.filter(r => r?.value || r?.itemPath).map(r => r.value || r.itemPath)\<close>.\<close>

definition itemPaths :: "node list \<Rightarrow> string list" where
  "itemPaths xs = List.map_filter (\<lambda>r. valueOrItemPath (Some r)) xs"

subsection \<open>Copy path\<close>

definition copyPath :: "node option \<Rightarrow> node list option \<Rightarrow> node list \<Rightarrow> state \<Rightarrow> state" where
  "copyPath resource selectedItems selection st =
     (let paths = itemPaths (copyPath_items resource selectedItems selection)
      in if length paths = 0 then st
         else st\<lparr>systemClipboard :=
                   Some (if length paths = 1 then hd paths else join_with [CHR 0x0A] paths)\<rparr>)"

subsection \<open>Cut and copy\<close>

definition cut :: "node option \<Rightarrow> node list option \<Rightarrow> node list \<Rightarrow> state \<Rightarrow> state" where
  "cut resource selectedItems selection st =
     (let its = cut_items resource selectedItems selection
      in if length its > 0
         then notify (InformationMessage (''Cut: '' @ join_with '', '' (map basename (itemPaths its))))
                (st\<lparr>clipboardPaths := itemPaths its, clipboardOperation := Some Cut\<rparr>)
         else st)"

definition copy :: "node option \<Rightarrow> node list option \<Rightarrow> node list \<Rightarrow> state \<Rightarrow> state" where
  "copy resource selectedItems selection st =
     (let its = cut_items resource selectedItems selection
      in if length its > 0
         then notify (InformationMessage (''Copied: '' @ join_with '', '' (map basename (itemPaths its))))
                (st\<lparr>clipboardPaths := itemPaths its, clipboardOperation := Some Copy\<rparr>)
         else st)"

subsection \<open>Paste\<close>

text \<open>
  The destination directory: the path of \<open>resource\<close>; without one, the first selected
  item, or its parent directory when \<open>stat\<close> says it is not a directory.  \<open>None\<close> is a
  falsy \<open>targetDir\<close>.
\<close>

definition paste_targetDir :: "'fs fs_ops \<Rightarrow> 'fs \<Rightarrow> node option \<Rightarrow> node list \<Rightarrow> string option" where
  "paste_targetDir ops fs resource selection =
     (case valueOrItemPath resource of
        Some targetDir \<Rightarrow> Some targetDir
      | None \<Rightarrow>
          if length selection > 0 then
            (case valueOrItemPath (Some (hd selection)) of
               Some selectedPath \<Rightarrow>
                 (case statSync ops fs selectedPath of
                    Some stat \<Rightarrow> Some (if isDirectory stat then selectedPath else dirname selectedPath)
                  | None \<Rightarrow> Some selectedPath)
             | None \<Rightarrow> None)
          else None)"

text \<open>
  The loop over \<open>clipboardPaths\<close>.  Nothing catches what \<open>renameSync\<close> or \<open>copy\<close>
  throw, so the exception ends the loop and leaves the handler; the result carries the
  message of the exception, if any, with the file system and the entries as they are at
  that point.
\<close>

fun paste_loop ::
  "'fs fs_ops \<Rightarrow> string \<Rightarrow> clipOp option \<Rightarrow> string list \<Rightarrow> 'fs \<times> entry list
   \<Rightarrow> string option \<times> 'fs \<times> entry list" where
  "paste_loop ops targetDir operation [] (fs, its) = (None, fs, its)"
| "paste_loop ops targetDir operation (sourcePath # rest) (fs, its) =
     (if \<not> existsSync ops fs sourcePath then paste_loop ops targetDir operation rest (fs, its)
      else
        let destPath = path_join [targetDir, basename sourcePath]
        in if operation = Some Cut then
             (case renameSync ops fs sourcePath destPath of
                Throws err fs' \<Rightarrow> (Some err, fs', its)
              | Done fs' \<Rightarrow>
                  paste_loop ops targetDir operation rest
                    (fs', updateFirst sourcePath (\<lambda>favItem. favItem\<lparr>path := destPath\<rparr>) its))
           else
             (case fs_copy ops fs sourcePath destPath of
                Throws err fs' \<Rightarrow> (Some err, fs', its)
              | Done fs' \<Rightarrow> paste_loop ops targetDir operation rest (fs', its)))"

definition paste ::
  "'fs fs_ops \<Rightarrow> node option \<Rightarrow> node list \<Rightarrow> state \<times> 'fs \<Rightarrow> outcome \<times> state \<times> 'fs" where
  "paste ops resource selection = (\<lambda>(st, fs).
     case paste_targetDir ops fs resource selection of
       None \<Rightarrow> (Returned, st, fs)
     | Some targetDir \<Rightarrow>
         if length (clipboardPaths st) > 0 then
           (case paste_loop ops targetDir (clipboardOperation st) (clipboardPaths st) (fs, items st) of
              (Some err, fs', its') \<Rightarrow> (Rejected err, st\<lparr>items := its'\<rparr>, fs')
            | (None, fs', its') \<Rightarrow>
                (Returned,
                 if clipboardOperation st = Some Cut
                 then st\<lparr>items := its', clipboardPaths := [], clipboardOperation := None\<rparr>
                 else st\<lparr>items := its'\<rparr>,
                 fs'))
         else (Returned, st, fs))"

subsection \<open>Rename\<close>

text \<open>\<open>newName\<close> is what the input box returns, \<open>None\<close> when it is dismissed.\<close>

definition rename ::
  "'fs fs_ops \<Rightarrow> node option \<Rightarrow> string option \<Rightarrow> state \<times> 'fs \<Rightarrow> outcome \<times> state \<times> 'fs" where
  "rename ops resource newName = (\<lambda>(st, fs).
     case valueOrItemPath resource of
       None \<Rightarrow> (Returned, st, fs)
     | Some itemPath \<Rightarrow>
         let oldName = basename itemPath
         in if truthy newName \<and> newName \<noteq> Some oldName then
              let newPath = path_join [dirname itemPath, the newName]
              in (case renameSync ops fs itemPath newPath of
                    Throws err fs' \<Rightarrow> (Rejected err, st, fs')
                  | Done fs' \<Rightarrow>
                      (Returned,
                       st\<lparr>items := updateFirst itemPath (\<lambda>favItem. favItem\<lparr>path := newPath\<rparr>) (items st)\<rparr>,
                       fs'))
            else (Returned, st, fs))"

subsection \<open>Move up and down\<close>

text \<open>\<open>category ? item.category === category : !item.category\<close>.\<close>

definition sameCategory :: "string option \<Rightarrow> entry \<Rightarrow> bool" where
  "sameCategory c item = (if truthy c then category item = c else \<not> truthy (category item))"

text \<open>
  \<open>[items[i], items[j]] = [items[j], items[i]]\<close>; both indices come from a successful
  \<open>findIndex\<close>.
\<close>

definition swap :: "'a list \<Rightarrow> int \<Rightarrow> int \<Rightarrow> 'a list" where
  "swap xs i j = xs[nat i := xs ! nat j, nat j := xs ! nat i]"

definition moveUp :: "node option \<Rightarrow> state \<Rightarrow> state" where
  "moveUp resource st =
     (case valueOrItemPath resource of
        None \<Rightarrow> st
      | Some itemPath \<Rightarrow>
          let its = items st;
              part = filter (sameCategory (nodeCategory resource)) its;
              currentIndex = findIndex (\<lambda>item. path item = itemPath) part
          in if currentIndex \<le> 0 then st
             else
               let currentFullIndex = findIndex (\<lambda>item. path item = itemPath) its;
                   prevItem = part ! nat (currentIndex - 1);
                   prevFullIndex = findIndex (\<lambda>item. path item = path prevItem) its
               in st\<lparr>items := swap its currentFullIndex prevFullIndex\<rparr>)"


subsection \<open>Drag and drop\<close>

text \<open>An element of the dragged payload: \<open>{ path, isFavorite, type }\<close>.\<close>

record dragged =
  dpath :: string
  isFavorite :: bool
  dtype :: kind

text \<open>
  The body of the loop of \<open>handleDrop\<close> for one element of the payload.  What
  \<open>renameSync\<close> throws is caught inside the loop and shown, so every path through
  the body ends with the next iteration.
\<close>

definition drop_item ::
  "'fs fs_ops \<Rightarrow> string \<Rightarrow> dragged \<Rightarrow> message list \<times> 'fs \<Rightarrow> message list \<times> 'fs" where
  "drop_item ops targetFolder item = (\<lambda>(shown, fs).
     let sourcePath = dpath item;
         destPath = path_join [targetFolder, basename sourcePath]
     in if sourcePath = destPath then (shown, fs)
        else if startsWith destPath (sourcePath @ sep) then
          (shown @ [WarningMessage ''Cannot move folder into itself''], fs)
        else
          (case renameSync ops fs sourcePath destPath of
             Done fs' \<Rightarrow> (shown, fs')
           | Throws err fs' \<Rightarrow>
               (shown @ [ErrorMessage (''Failed to move '' @ basename sourcePath @ '': '' @ err)],
                fs')))"

fun drop_loop ::
  "'fs fs_ops \<Rightarrow> string \<Rightarrow> dragged list \<Rightarrow> message list \<times> 'fs \<Rightarrow> message list \<times> 'fs" where
  "drop_loop ops targetFolder [] s = s"
| "drop_loop ops targetFolder (item # rest) s =
     drop_loop ops targetFolder rest (drop_item ops targetFolder item s)"

text \<open>
  \<open>handleDrop\<close>.  \<open>payload\<close> is \<open>draggedItem.value\<close>, \<open>None\<close> when the transfer holds no
  item of the tree's type or the item has no value.
\<close>

definition handleDrop ::
  "'fs fs_ops \<Rightarrow> node option \<Rightarrow> dragged list option \<Rightarrow> state \<times> 'fs \<Rightarrow> state \<times> 'fs" where
  "handleDrop ops target payload = (\<lambda>(st, fs).
     case payload of
       None \<Rightarrow> (st, fs)
     | Some sourceItems \<Rightarrow>
         if length sourceItems = 0 then (st, fs)
         else
           (case valueOrItemPath target of
              None \<Rightarrow> (notify (WarningMessage ''Cannot drop here - select a folder as drop target'') st, fs)
            | Some targetPath \<Rightarrow>
                (case statSync ops fs targetPath of
                   None \<Rightarrow> (notify (ErrorMessage ''Invalid drop target'') st, fs)
                 | Some targetStat \<Rightarrow>
                     let targetFolder = (if isDirectory targetStat then targetPath
                                         else dirname targetPath)
                     in (case drop_loop ops targetFolder sourceItems (messages st, fs) of
                           (shown, fs') \<Rightarrow> (st\<lparr>messages := shown\<rparr>, fs')))))"


section \<open>Path persistence\<close>

text \<open>
  \<open>workspaceRoot\<close> is \<open>getWorkspaceRoot()\<close>, \<open>None\<close> without a workspace folder;
  \<open>cwd\<close> is the working directory that \<open>path.relative\<close> resolves against.
\<close>

definition toRelativePath :: "string \<Rightarrow> string option \<Rightarrow> string \<Rightarrow> string" where
  "toRelativePath cwd workspaceRoot absolutePath =
     (if \<not> truthy workspaceRoot then absolutePath
      else if startsWith absolutePath (the workspaceRoot) then
        (let rel = relative cwd (the workspaceRoot) absolutePath
         in if rel = [] then ''.'' else rel)
      else absolutePath)"

definition toAbsolutePath :: "string option \<Rightarrow> string \<Rightarrow> string" where
  "toAbsolutePath workspaceRoot storedPath =
     (if \<not> truthy workspaceRoot then storedPath
      else if isAbsolute storedPath then storedPath
      else path_join [the workspaceRoot, storedPath])"

text \<open>
  Normalised absolute paths, for stating what the two conversions do in general: a
  segment is not empty, not \<open>.\<close>, not \<open>..\<close> and holds no separator, and the path is \<open>/\<close>
  followed by its segments joined by \<open>/\<close>.
\<close>

definition clean_segment :: "string \<Rightarrow> bool" where
  "clean_segment s = (s \<noteq> [] \<and> s \<noteq> ''.'' \<and> s \<noteq> ''..'' \<and> CHR ''/'' \<notin> set s)"

definition absolute_of :: "string list \<Rightarrow> string" where
  "absolute_of segs = CHR ''/'' # join_with ''/'' segs"


section \<open>A file system for evaluation\<close>

text \<open>
  A flat table from paths to their \<open>stat\<close>, enough to run the handlers on examples:
  \<open>rename\<close> fails on a missing source and replaces the destination; \<open>copy\<close> without
  \<open>overwrite\<close> fails on a missing source and on an existing destination.
\<close>

type_synonym mem_fs = "(string \<times> stats) list"

definition mem_rename :: "mem_fs \<Rightarrow> string \<Rightarrow> string \<Rightarrow> mem_fs io" where
  "mem_rename fs src dst =
     (case map_of fs src of
        None \<Rightarrow> Throws ''ENOENT'' fs
      | Some st \<Rightarrow> Done ((dst, st) # filter (\<lambda>(p, s). p \<noteq> src \<and> p \<noteq> dst) fs))"

definition mem_copy :: "mem_fs \<Rightarrow> string \<Rightarrow> string \<Rightarrow> mem_fs io" where
  "mem_copy fs src dst =
     (case map_of fs src of
        None \<Rightarrow> Throws ''FileNotFound'' fs
      | Some st \<Rightarrow> if map_of fs dst \<noteq> None then Throws ''FileExists'' fs
                   else Done ((dst, st) # fs))"

definition mem_readdir :: "mem_fs \<Rightarrow> string \<Rightarrow> string list option" where
  "mem_readdir fs dir =
     (case map_of fs dir of
        None \<Rightarrow> None
      | Some st \<Rightarrow>
          if isDirectory st
          then Some (map (\<lambda>(p, s). basename p) (filter (\<lambda>(p, s). p \<noteq> dir \<and> dirname p = dir) fs))
          else None)"

definition mem_ops :: "mem_fs fs_ops" where
  "mem_ops = \<lparr> existsSync = (\<lambda>fs p. map_of fs p \<noteq> None),
               statSync = map_of,
               readdirSync = mem_readdir,
               renameSync = mem_rename,
               fs_copy = mem_copy \<rparr>"

definition a_file :: stats where
  "a_file = \<lparr> isDirectory = False, mtimeMs = 0 \<rparr>"

definition a_dir :: stats where
  "a_dir = \<lparr> isDirectory = True, mtimeMs = 0 \<rparr>"

definition fav :: "string \<Rightarrow> kind \<Rightarrow> string option \<Rightarrow> entry" where
  "fav p t c = \<lparr> path = p, etype = t, category = c \<rparr>"

definition empty_state :: state where
  "empty_state = \<lparr> items = [], categoryList = [], sortOrder = MANUAL, clipboardPaths = [],
                   clipboardOperation = None, systemClipboard = None, messages = [] \<rparr>"


definition tied_a :: entry where
  "tied_a = fav ''/w/a'' File None"

definition tied_b :: entry where
  "tied_b = fav [CHR ''/'', CHR ''w'', CHR ''/'', CHR ''a'', CHR 0x01] File None"

definition tied_entries :: "entry list" where
  "tied_entries = [tied_a, tied_b]"



definition duplicate_state :: state where
  "duplicate_state = empty_state\<lparr>items := [fav ''/w/p'' File (Some ''A''),
                                           fav ''/w/q'' File None,
                                           fav ''/w/p'' File None]\<rparr>"



definition node_X :: node where "node_X = FavoriteItem ''/w/x.txt'' File None"
definition node_Y :: node where "node_Y = Resource ''y.txt'' False ''/w/sub/y.txt'' ''resource''"

definition copy_fs :: mem_fs where
  "copy_fs = [(''/src/a.txt'', a_file), (''/src/b.txt'', a_file), (''/dst'', a_dir),
              (''/dst/a.txt'', a_file)]"

definition copy_state :: state where
  "copy_state = empty_state\<lparr>clipboardPaths := [''/src/a.txt'', ''/src/b.txt''],
                            clipboardOperation := Some Copy\<rparr>"

definition missing_fs :: mem_fs where
  "missing_fs = [(''/w/a.txt'', a_file), (''/w/sub'', a_dir)]"

definition two_favorites :: state where
  "two_favorites = empty_state\<lparr>items := [fav ''/w/a.txt'' File None, fav ''/w/b.txt'' File None]\<rparr>"

definition cut_favorites :: state where
  "cut_favorites = empty_state\<lparr>items := [fav ''/w/a.txt'' File None, fav ''/w/sub/a.txt'' File None],
                               clipboardPaths := [''/w/a.txt''],
                               clipboardOperation := Some Cut\<rparr>"

definition sub_fs :: mem_fs where
  "sub_fs = [(''/w'', a_dir), (''/w/sub'', a_dir), (''/w/parent'', a_dir),
             (''/w/parent/child'', a_dir), (''/w/a.txt'', a_file), (''/w/b.txt'', a_file)]"

definition drag :: "string \<Rightarrow> kind \<Rightarrow> dragged" where
  "drag p t = \<lparr> dpath = p, isFavorite = False, dtype = t \<rparr>"

definition folder_fs :: mem_fs where
  "folder_fs = [(''/d'', a_dir), (''/d/a.txt'', a_file), (''/d/.git'', a_dir), (''/d/sub'', a_dir)]"


section \<open>Evaluation\<close>

text \<open>The equations that run the \<open>path\<close> functions on literals.\<close>

lemmas path_eval = path_join_def normalize_def normalizeString_def normalize_segments_def
  normalize_step_def basename_def dirname_def Let_def

lemmas relative_eval = relative_def resolve_segments_def isAbsolute_def normalize_segments_def
  normalize_step_def Let_def


section \<open>Sorting\<close>

text \<open>The sort returns a permutation of its input, whatever the comparator.\<close>

lemma mset_sort_insert: "mset (sort_insert cmp x xs) = add_mset x (mset xs)"
  by (induction xs) auto

lemma mset_js_sort: "mset (js_sort cmp xs) = mset xs"
  by (induction xs) (auto simp: mset_sort_insert)

lemma set_js_sort: "set (js_sort cmp xs) = set xs"
  by (metis mset_js_sort set_mset_mset)





lemma comparator_flip:
  "consistent_comparator lc \<Longrightarrow> (lc a b < 0) = (0 < lc b a)"
  unfolding consistent_comparator_def by blast



lemma comparator_trans:
  "consistent_comparator lc \<Longrightarrow> lc a b \<le> 0 \<Longrightarrow> lc b c \<le> 0 \<Longrightarrow> lc a c \<le> 0"
  unfolding consistent_comparator_def by blast





text \<open>Comparison by character code is consistent and ties no two different strings.\<close>

lemma compare_codes_flip: "(compare_codes a b < 0) = (0 < compare_codes b a)"
  by (induction a b rule: compare_codes.induct) auto

lemma compare_codes_zero: "compare_codes a b = 0 \<Longrightarrow> a = b"
  by (induction a b rule: compare_codes.induct) (auto split: if_splits)

lemma compare_codes_Cons_less:
  "(compare_codes (x # xs) (y # ys) < 0) =
   ((of_char x :: nat) < of_char y \<or> (x = y \<and> compare_codes xs ys < 0))"
  by auto

lemma compare_codes_trans:
  "compare_codes a b < 0 \<Longrightarrow> compare_codes b c < 0 \<Longrightarrow> compare_codes a c < 0"
proof (induction a arbitrary: b c)
  case Nil
  then show ?case by (cases b; cases c) simp_all
next
  case (Cons x xs)
  from Cons.prems(1) obtain y ys where b: "b = y # ys" by (cases b) simp_all
  from Cons.prems(2) b obtain z zs where c: "c = z # zs" by (cases c) simp_all
  from Cons.prems(1) b have xy: "(of_char x :: nat) < of_char y \<or> (x = y \<and> compare_codes xs ys < 0)"
    by (simp only: compare_codes_Cons_less)
  from Cons.prems(2) b c have yz: "(of_char y :: nat) < of_char z \<or> (y = z \<and> compare_codes ys zs < 0)"
    by (simp only: compare_codes_Cons_less)
  from xy yz Cons.IH[of ys zs]
  have "(of_char x :: nat) < of_char z \<or> (x = z \<and> compare_codes xs zs < 0)"
    by (elim disjE conjE) (auto intro: less_trans)
  then show ?case unfolding c by (simp only: compare_codes_Cons_less)
qed

lemma compare_codes_consistent: "consistent_comparator compare_codes"
  unfolding consistent_comparator_def
proof (intro conjI allI impI)
  fix a b show "(compare_codes a b < 0) = (0 < compare_codes b a)" by (rule compare_codes_flip)
next
  fix a b c assume h: "compare_codes a b \<le> 0 \<and> compare_codes b c \<le> 0"
  consider (ab) "compare_codes a b = 0" | (bc) "compare_codes b c = 0"
    | (lt) "compare_codes a b < 0" "compare_codes b c < 0"
    using h by fastforce
  then show "compare_codes a c \<le> 0"
  proof cases
    case ab
    then have "a = b" by (rule compare_codes_zero)
    with h show ?thesis by simp
  next
    case bc
    then have "b = c" by (rule compare_codes_zero)
    with h show ?thesis by simp
  next
    case lt
    then have "compare_codes a c < 0" by (rule compare_codes_trans)
    then show ?thesis by simp
  qed
qed


lemma control_blind_consistent: "consistent_comparator (localeCompare control_blind)"
proof -
  have lc: "localeCompare control_blind = (\<lambda>a b. compare_codes (strip_control a) (strip_control b))"
    by (simp add: control_blind_def)
  show ?thesis
    unfolding lc consistent_comparator_def
    using comparator_flip[OF compare_codes_consistent] comparator_trans[OF compare_codes_consistent]
    by blast
qed






section \<open>Children of a favorited folder\<close>

lemma nodeLabel_Resource:
  "nodeLabel (case t of (isDir, m, fullPath) \<Rightarrow> Resource x isDir fullPath (g isDir)) = x"
  by (cases t) simp

lemma children_labels:
  "readdirSync ops fs dirPath = Some names \<Longrightarrow>
   map nodeLabel (getFilesystemChildren ops S fs order dirPath) =
   js_sort (childCompare S order (itemStat ops fs dirPath))
     (filter (\<lambda>item. \<not> startsWith item ''.'') names)"
  by (simp add: getFilesystemChildren_def Let_def o_def nodeLabel_Resource)

lemma children_are_the_visible_names:
  "readdirSync ops fs dirPath = Some names \<Longrightarrow>
   mset (map nodeLabel (getFilesystemChildren ops S fs order dirPath)) =
   mset (filter (\<lambda>item. \<not> startsWith item ''.'') names)"
  by (simp add: children_labels mset_js_sort)



lemma children_example:
  "getFilesystemChildren mem_ops ascii_strings folder_fs ASC ''/d'' =
     [Resource ''sub'' True ''/d/sub'' ''resource.dir'', Resource ''a.txt'' False ''/d/a.txt'' ''resource'']"
  "getFilesystemChildren mem_ops ascii_strings folder_fs DESC ''/d'' =
     [Resource ''sub'' True ''/d/sub'' ''resource.dir'', Resource ''a.txt'' False ''/d/a.txt'' ''resource'']"
  by (simp_all add: getFilesystemChildren_def itemStat_def childCompare_def mem_ops_def
      mem_readdir_def folder_fs_def a_dir_def a_file_def ascii_strings_def ascii_lower_def
      startsWith_def path_eval)

text \<open>The examples: two entries that the second collation ties, and a folder of files.\<close>

lemma tied_keys:
  "toLowerCase control_blind (basename (path tied_a)) = ''a''"
  "toLowerCase control_blind (basename (path tied_b)) = [CHR ''a'', CHR 0x01]"
  by (simp_all add: tied_a_def tied_b_def fav_def control_blind_def basename_def ascii_lower_def)

lemma tied_compare:
  "localeCompare control_blind ''a'' [CHR ''a'', CHR 0x01] = 0"
  "localeCompare control_blind [CHR ''a'', CHR 0x01] ''a'' = 0"
  by (simp_all add: control_blind_def strip_control_def)

lemma tied_paths: "path tied_a \<noteq> []" "path tied_b \<noteq> []" "tied_a \<noteq> tied_b"
  by (simp_all add: tied_a_def tied_b_def fav_def)

lemma tied_sorted:
  "sortItems mem_ops [] control_blind ASC tied_entries = Inr tied_entries"
  "sortItems mem_ops [] control_blind DESC tied_entries = Inr tied_entries"
  by (simp_all add: sortItems_def tied_entries_def tied_keys tied_compare tied_paths)




text \<open>
  Claim C9, as stated, fails.  The base names \<open>a\<close> and \<open>a\<close> followed by U+0001 are
  different, also in lower case, but compare equal, so the stable sort leaves the two
  entries in their stored order in mode \<open>ASC\<close> and in mode \<open>DESC\<close>: the second is not the
  reverse of the first.  And the children of \<open>/d\<close>, a directory and a file with
  different names, come in the same order in both modes, the directory first.
\<close>

theorem desc_not_reverse_of_asc_counterexample:
  "toLowerCase control_blind (basename (path tied_a)) \<noteq>
     toLowerCase control_blind (basename (path tied_b)) \<and>
   sortItems mem_ops [] control_blind DESC [tied_a, tied_b] \<noteq>
     map_sum id rev (sortItems mem_ops [] control_blind ASC [tied_a, tied_b]) \<and>
   getFilesystemChildren mem_ops ascii_strings folder_fs DESC ''/d'' \<noteq>
     rev (getFilesystemChildren mem_ops ascii_strings folder_fs ASC ''/d'')"
proof -
  have k: "toLowerCase control_blind (basename (path tied_a)) \<noteq>
           toLowerCase control_blind (basename (path tied_b))"
    by (simp add: tied_keys)
  have s: "sortItems mem_ops [] control_blind DESC [tied_a, tied_b] \<noteq>
           map_sum id rev (sortItems mem_ops [] control_blind ASC [tied_a, tied_b])"
    using tied_sorted tied_paths(3) by (simp add: tied_entries_def)
  have c: "getFilesystemChildren mem_ops ascii_strings folder_fs DESC ''/d'' \<noteq>
           rev (getFilesystemChildren mem_ops ascii_strings folder_fs ASC ''/d'')"
    unfolding children_example by simp
  from k s c show ?thesis by blast
qed



text \<open>
  Claim C10.  No child returned by \<open>_getFilesystemChildren\<close> has a name that begins
  with a dot, for every sort order, file system and directory.
\<close>

theorem children_exclude_dotfiles:
  "list_all (\<lambda>child. \<not> startsWith (nodeLabel child) ''.'')
     (getFilesystemChildren ops S fs order dirPath)"
  by (auto simp: getFilesystemChildren_def list_all_iff set_js_sort Let_def nodeLabel_Resource
           split: option.splits)

section \<open>Manual reordering\<close>


lemma findIndex_none: "(\<forall>a \<in> set xs. \<not> P a) \<Longrightarrow> findIndex P xs = -1"
  by (induction xs) (auto simp: Let_def)










text \<open>
  Claim C5, as stated, fails on a store in which two entries share a path: the indices
  come from \<open>findIndex\<close> on the path.  With \<open>/w/p\<close> in category \<open>A\<close>, then the root
  entries \<open>/w/q\<close> and \<open>/w/p\<close>, \<open>moveUp\<close> on the root \<open>/w/p\<close>, the second of its
  partition, exchanges \<open>/w/q\<close> with the entry of category \<open>A\<close>: an entry of another
  category leaves its position and the root partition stays in its order.
\<close>

theorem moveUp_duplicate_path_counterexample:
  "filter (sameCategory None) (items duplicate_state) = [fav ''/w/q'' File None, fav ''/w/p'' File None] \<and>
   items (moveUp (Some (FavoriteItem ''/w/p'' File None)) duplicate_state) =
     [fav ''/w/q'' File None, fav ''/w/p'' File (Some ''A''), fav ''/w/p'' File None] \<and>
   items duplicate_state ! 0 = fav ''/w/p'' File (Some ''A'') \<and>
   items (moveUp (Some (FavoriteItem ''/w/p'' File None)) duplicate_state) ! 0 \<noteq>
     items duplicate_state ! 0 \<and>
   filter (sameCategory None) (items (moveUp (Some (FavoriteItem ''/w/p'' File None)) duplicate_state)) =
     filter (sameCategory None) (items duplicate_state)"
  by (simp add: moveUp_def swap_def duplicate_state_def empty_state_def fav_def sameCategory_def
      truthy_def Let_def)




section \<open>Cut, copy and paste\<close>

text \<open>What the assignment to the first entry with a given path changes.\<close>

lemma updateFirst_length [simp]: "length (updateFirst p f its) = length its"
  by (induction its) auto



lemma updateFirst_map:
  "(\<And>e. g (f e) = g e) \<Longrightarrow> map g (updateFirst p f its) = map g its"
  by (induction its) auto

lemma updateFirst_untracked:
  "p \<notin> path ` set its \<Longrightarrow> updateFirst p f its = its"
  by (induction its) auto

lemma notify_fields [simp]:
  "items (notify m st) = items st" "categoryList (notify m st) = categoryList st"
  "clipboardPaths (notify m st) = clipboardPaths st"
  "clipboardOperation (notify m st) = clipboardOperation st"
  by (simp_all add: notify_def)









text \<open>A clipboard path that no longer exists is passed over without any effect.\<close>

lemma paste_skips_missing:
  "\<not> existsSync ops fs src \<Longrightarrow>
   paste_loop ops targetDir operation (src # rest) (fs, its) =
   paste_loop ops targetDir operation rest (fs, its)"
  by simp

text \<open>
  Claim C7.  On the clipboard \<open>[/src/a.txt, /src/b.txt]\<close> with operation Copy and the
  destination \<open>/dst\<close> that already holds \<open>a.txt\<close>, the collision on the first item is
  not caught: the handler is rejected with the error of \<open>copy\<close>, shows nothing, and
  \<open>/src/b.txt\<close>, which exists, is never copied.
\<close>

theorem copy_paste_collision_aborts_batch:
  "paste mem_ops (Some (FavoriteItem ''/dst'' Folder None)) [] (copy_state, copy_fs) =
     (Rejected ''FileExists'', copy_state, copy_fs) \<and>
   existsSync mem_ops copy_fs ''/src/b.txt'' \<and>
   \<not> existsSync mem_ops copy_fs ''/dst/b.txt''"
  by (simp add: paste_def paste_targetDir_def copy_state_def empty_state_def copy_fs_def
      mem_ops_def mem_copy_def path_eval)


section \<open>Target resolution\<close>

text \<open>\<open>copyPath\<close> takes the first non-empty of its three sources.\<close>

lemma copyPath_items_first_non_empty:
  "copyPath_items resource selectedItems selection =
     (if selectedItems \<noteq> None \<and> the selectedItems \<noteq> [] then the selectedItems
      else if resource \<noteq> None then [the resource]
      else selection)"
  by (auto simp: copyPath_items_def split: option.splits)

lemma single_target_wins:
  "copyPath_items (Some P) (Some []) [Q, R] = [P]"
  "copyPath_items (Some P) None [Q, R] = [P]"
  "cut_items (Some P) (Some []) [Q, R] = [P]"
  "cut_items (Some P) None [Q, R] = [P]"
  by (simp_all add: copyPath_items_def cut_items_def)

text \<open>
  Claim C4.  Called from the context menu on \<open>X\<close> with \<open>X\<close> and \<open>Y\<close> selected, \<open>cut\<close> and
  \<open>copy\<close> act on \<open>X\<close> alone, while \<open>copyPath\<close>, given the same arguments, acts on \<open>X\<close> and
  \<open>Y\<close>: the explicit multi-selection does not reach \<open>cut\<close> and \<open>copy\<close>.
\<close>

theorem cut_drops_explicit_multi_select:
  "cut_items (Some node_X) (Some [node_X, node_Y]) [node_X, node_Y] = [node_X] \<and>
   clipboardPaths (cut (Some node_X) (Some [node_X, node_Y]) [node_X, node_Y] empty_state) =
     [''/w/x.txt''] \<and>
   clipboardPaths (copy (Some node_X) (Some [node_X, node_Y]) [node_X, node_Y] empty_state) =
     [''/w/x.txt''] \<and>
   copyPath_items (Some node_X) (Some [node_X, node_Y]) [node_X, node_Y] = [node_X, node_Y]"
  by (simp add: cut_items_def copyPath_items_def cut_def copy_def itemPaths_def
      List.map_filter_simps node_X_def node_Y_def)


section \<open>Uniqueness of paths\<close>

text \<open>
  \<open>addFavorite\<close>, \<open>removeFavorite\<close>, \<open>moveToCategory\<close> and \<open>renameCategory\<close> keep the paths
  pairwise different; rewriting a path does when the new path is not tracked yet.
\<close>

lemma addFavorite_distinct:
  "distinct (map path (items st)) \<Longrightarrow> distinct (map path (items (snd (addFavorite p t st))))"
  by (auto simp: addFavorite_def image_iff)

lemma distinct_remove_nth:
  "distinct (map f xs) \<Longrightarrow> distinct (map f (take i xs @ drop (Suc i) xs))"
proof (induction xs arbitrary: i)
  case Nil
  then show ?case by simp
next
  case (Cons a xs)
  show ?case
  proof (cases i)
    case 0
    with Cons.prems show ?thesis by simp
  next
    case (Suc j)
    with Cons.prems Cons.IH[of j] show ?thesis
      by (auto dest: in_set_takeD in_set_dropD)
  qed
qed

lemma removeFavorite_distinct:
  "distinct (map path (items st)) \<Longrightarrow> distinct (map path (items (removeFavorite p st)))"
  using distinct_remove_nth[of path "items st"]
  by (simp add: removeFavorite_def Let_def del: map_append)

lemma moveToCategory_paths:
  "map path (items (moveToCategory p c st)) = map path (items st)"
  by (simp add: moveToCategory_def updateFirst_map)

lemma renameCategory_paths:
  "map path (items (renameCategory old new st)) = map path (items st)"
  by (simp add: renameCategory_def o_def cong: map_cong)

lemma updateFirst_path_distinct:
  "distinct (map path its) \<Longrightarrow> d \<notin> path ` set its \<Longrightarrow>
   distinct (map path (updateFirst s (\<lambda>favItem. favItem\<lparr>path := d\<rparr>) its))"
proof (induction its)
  case Nil
  then show ?case by simp
next
  case (Cons a its)
  show ?case
  proof (cases "path a = s")
    case True
    with Cons.prems show ?thesis by (auto simp: image_iff)
  next
    case False
    have sub: "path ` set (updateFirst s (\<lambda>favItem. favItem\<lparr>path := d\<rparr>) its) \<subseteq> insert d (path ` set its)"
      by (induction its) auto
    from Cons.prems have "path a \<noteq> d" "path a \<notin> path ` set its" by auto
    with sub have "path a \<notin> path ` set (updateFirst s (\<lambda>favItem. favItem\<lparr>path := d\<rparr>) its)"
      by blast
    with False Cons show ?thesis by auto
  qed
qed

text \<open>
  Claim C2.  With the favorites \<open>/w/a.txt\<close> and \<open>/w/b.txt\<close>, the second missing on disk,
  renaming the first to \<open>b.txt\<close> leaves two entries with the path \<open>/w/b.txt\<close>.  With
  the favorites \<open>/w/a.txt\<close> and \<open>/w/sub/a.txt\<close>, the second missing on disk, cutting
  the first and pasting it into \<open>/w/sub\<close> leaves two entries with the path
  \<open>/w/sub/a.txt\<close>.  Both stores had pairwise different paths before.
\<close>

theorem rename_and_paste_duplicate_paths:
  "distinct (map path (items two_favorites)) \<and>
   map path (items (fst (snd (rename mem_ops (Some (FavoriteItem ''/w/a.txt'' File None))
                                (Some ''b.txt'') (two_favorites, missing_fs))))) =
     [''/w/b.txt'', ''/w/b.txt''] \<and>
   distinct (map path (items cut_favorites)) \<and>
   map path (items (fst (snd (paste mem_ops (Some (FavoriteItem ''/w/sub'' Folder None)) []
                                (cut_favorites, missing_fs))))) =
     [''/w/sub/a.txt'', ''/w/sub/a.txt'']"
  by (simp add: rename_def paste_def paste_targetDir_def two_favorites_def cut_favorites_def
      empty_state_def missing_fs_def mem_ops_def mem_rename_def fav_def truthy_def path_eval)


section \<open>Drag and drop\<close>

text \<open>
  What the loop does to the file system does not depend on the messages shown so far,
  and items that leave the file system alone can be dropped from the batch.
\<close>

lemma drop_item_fs:
  "snd (drop_item ops targetFolder item (shown1, fs)) = snd (drop_item ops targetFolder item (shown2, fs))"
  by (simp add: drop_item_def Let_def split: io.splits)

lemma drop_loop_fs:
  "snd (drop_loop ops targetFolder batch (shown1, fs)) =
   snd (drop_loop ops targetFolder batch (shown2, fs))"
proof (induction batch arbitrary: shown1 shown2 fs)
  case Nil
  then show ?case by simp
next
  case (Cons item batch)
  obtain s1 fs1 where a: "drop_item ops targetFolder item (shown1, fs) = (s1, fs1)"
    by (cases "drop_item ops targetFolder item (shown1, fs)") auto
  obtain s2 fs2 where b: "drop_item ops targetFolder item (shown2, fs) = (s2, fs2)"
    by (cases "drop_item ops targetFolder item (shown2, fs)") auto
  from drop_item_fs[of ops targetFolder item shown1 fs shown2] a b have "fs1 = fs2" by simp
  with Cons.IH[of s1 fs1 s2] a b show ?case by simp
qed

lemma drop_loop_filter:
  assumes rej: "\<And>i fs shown. \<not> keep i \<Longrightarrow>
                  snd (drop_item ops targetFolder i (shown, fs)) = fs"
  shows "snd (drop_loop ops targetFolder batch (shown, fs)) =
         snd (drop_loop ops targetFolder (filter keep batch) (shown, fs))"
proof (induction batch arbitrary: shown fs)
  case Nil
  then show ?case by simp
next
  case (Cons item batch)
  obtain s1 fs1 where a: "drop_item ops targetFolder item (shown, fs) = (s1, fs1)"
    by (cases "drop_item ops targetFolder item (shown, fs)") auto
  show ?case
  proof (cases "keep item")
    case True
    with a Cons.IH[of s1 fs1] show ?thesis by simp
  next
    case False
    from rej[OF False, of shown fs] a have "fs1 = fs" by simp
    have "snd (drop_loop ops targetFolder batch (s1, fs)) =
          snd (drop_loop ops targetFolder batch (shown, fs))" by (rule drop_loop_fs)
    also note Cons.IH[of shown fs]
    finally show ?thesis using False a \<open>fs1 = fs\<close> by simp
  qed
qed

text \<open>
  Claim C8.  In the loop of \<open>handleDrop\<close>, an item whose destination is its own path
  changes nothing, and an item whose destination begins with its path followed by the
  separator adds the warning and changes nothing else; in both cases the loop goes on
  with the rest of the batch from that state.  For a whole batch, the file system
  ends as it does for the batch without these items: they are never moved and the
  others are moved as they would be without them.
\<close>

theorem drop_rejects_self_and_subtree:
  "(dpath item = path_join [targetFolder, basename (dpath item)] \<longrightarrow>
      drop_loop ops targetFolder (item # rest) (shown, fs) =
      drop_loop ops targetFolder rest (shown, fs)) \<and>
   (dpath item \<noteq> path_join [targetFolder, basename (dpath item)] \<and>
    startsWith (path_join [targetFolder, basename (dpath item)]) (dpath item @ sep) \<longrightarrow>
      drop_loop ops targetFolder (item # rest) (shown, fs) =
      drop_loop ops targetFolder rest
        (shown @ [WarningMessage ''Cannot move folder into itself''], fs)) \<and>
   snd (drop_loop ops targetFolder batch (shown, fs)) =
   snd (drop_loop ops targetFolder
          (filter (\<lambda>i. dpath i \<noteq> path_join [targetFolder, basename (dpath i)] \<and>
                       \<not> startsWith (path_join [targetFolder, basename (dpath i)]) (dpath i @ sep))
                  batch)
          (shown, fs))"
proof (intro conjI impI)
  assume "dpath item = path_join [targetFolder, basename (dpath item)]"
  then show "drop_loop ops targetFolder (item # rest) (shown, fs) =
             drop_loop ops targetFolder rest (shown, fs)"
    by (simp add: drop_item_def Let_def)
next
  assume "dpath item \<noteq> path_join [targetFolder, basename (dpath item)] \<and>
    startsWith (path_join [targetFolder, basename (dpath item)]) (dpath item @ sep)"
  then show "drop_loop ops targetFolder (item # rest) (shown, fs) =
      drop_loop ops targetFolder rest
        (shown @ [WarningMessage ''Cannot move folder into itself''], fs)"
    by (simp add: drop_item_def Let_def)
next
  show "snd (drop_loop ops targetFolder batch (shown, fs)) =
   snd (drop_loop ops targetFolder
          (filter (\<lambda>i. dpath i \<noteq> path_join [targetFolder, basename (dpath i)] \<and>
                       \<not> startsWith (path_join [targetFolder, basename (dpath i)]) (dpath i @ sep))
                  batch)
          (shown, fs))"
    by (rule drop_loop_filter) (auto simp: drop_item_def Let_def)
qed

lemma sub_dest:
  "path_join [''/w/sub'', basename ''/w/sub''] = ''/w/sub/sub''"
  "path_join [''/w/parent/child'', basename ''/w/parent''] = ''/w/parent/child/parent''"
  "path_join [''/w'', basename ''/w/a.txt''] = ''/w/a.txt''"
  by (simp_all add: path_eval)

theorem drop_rejects_self_and_subtree_witness:
  "dpath (drag ''/w/a.txt'' File) = path_join [''/w'', basename (dpath (drag ''/w/a.txt'' File))] \<and>
   drop_loop mem_ops ''/w'' [drag ''/w/a.txt'' File] ([], sub_fs) = ([], sub_fs) \<and>
   dpath (drag ''/w/sub'' Folder) \<noteq> path_join [''/w/sub'', basename (dpath (drag ''/w/sub'' Folder))] \<and>
   startsWith (path_join [''/w/sub'', basename (dpath (drag ''/w/sub'' Folder))])
     (dpath (drag ''/w/sub'' Folder) @ sep) \<and>
   drop_loop mem_ops ''/w/sub'' [drag ''/w/sub'' Folder] ([], sub_fs) =
     ([WarningMessage ''Cannot move folder into itself''], sub_fs)"
proof -
  have h1: "dpath (drag ''/w/a.txt'' File) =
            path_join [''/w'', basename (dpath (drag ''/w/a.txt'' File))]"
    by (simp add: drag_def sub_dest)
  have h2: "dpath (drag ''/w/sub'' Folder) \<noteq>
            path_join [''/w/sub'', basename (dpath (drag ''/w/sub'' Folder))]"
    by (simp add: drag_def sub_dest)
  have h3: "startsWith (path_join [''/w/sub'', basename (dpath (drag ''/w/sub'' Folder))])
              (dpath (drag ''/w/sub'' Folder) @ sep)"
    by (simp add: drag_def sub_dest startsWith_def sep_def)
  from drop_rejects_self_and_subtree[where item = "drag ''/w/a.txt'' File" and targetFolder = "''/w''"
      and ops = mem_ops and rest = "[]" and shown = "[]" and fs = sub_fs, THEN conjunct1] h1
  have r1: "drop_loop mem_ops ''/w'' [drag ''/w/a.txt'' File] ([], sub_fs) = ([], sub_fs)"
    by simp
  from drop_rejects_self_and_subtree[where item = "drag ''/w/sub'' Folder" and targetFolder = "''/w/sub''"
      and ops = mem_ops and rest = "[]" and shown = "[]" and fs = sub_fs,
      THEN conjunct2, THEN conjunct1] h2 h3
  have r2: "drop_loop mem_ops ''/w/sub'' [drag ''/w/sub'' Folder] ([], sub_fs) =
            ([WarningMessage ''Cannot move folder into itself''], sub_fs)"
    by simp
  from h1 h2 h3 r1 r2 show ?thesis by blast
qed

text \<open>
  Dropping \<open>/w/sub\<close> onto itself, and dropping \<open>/w/parent\<close> together with \<open>/w/b.txt\<close>
  onto \<open>/w/parent/child\<close>: the folder is refused, the file is moved.
\<close>

lemma drop_scenarios:
  "handleDrop mem_ops (Some (Resource ''sub'' True ''/w/sub'' ''resource.dir''))
     (Some [drag ''/w/sub'' Folder]) (empty_state, sub_fs) =
   (notify (WarningMessage ''Cannot move folder into itself'') empty_state, sub_fs)"
  "handleDrop mem_ops (Some (Resource ''child'' True ''/w/parent/child'' ''resource.dir''))
     (Some [drag ''/w/parent'' Folder, drag ''/w/b.txt'' File]) (empty_state, sub_fs) =
   (notify (WarningMessage ''Cannot move folder into itself'') empty_state,
    (''/w/parent/child/b.txt'', a_file) # filter (\<lambda>(p, s). p \<noteq> ''/w/b.txt'') sub_fs)"
  by (simp_all add: handleDrop_def drop_item_def notify_def empty_state_def sub_fs_def drag_def
      mem_ops_def mem_rename_def a_dir_def a_file_def startsWith_def sep_def path_eval)


section \<open>Path persistence\<close>

text \<open>The two conversions on the workspace folder itself, a path below it and a path elsewhere.\<close>

lemma roundtrip_examples:
  "toRelativePath cwd (Some ''/w'') ''/w'' = ''.''"
  "toAbsolutePath (Some ''/w'') ''.'' = ''/w''"
  "toRelativePath cwd (Some ''/w'') ''/w/src/a.txt'' = ''src/a.txt''"
  "toAbsolutePath (Some ''/w'') ''src/a.txt'' = ''/w/src/a.txt''"
  "toRelativePath cwd (Some ''/w'') ''/other/a.txt'' = ''/other/a.txt''"
  "toAbsolutePath (Some ''/w'') ''/other/a.txt'' = ''/other/a.txt''"
  by (simp_all add: toRelativePath_def toAbsolutePath_def truthy_def startsWith_def relative_eval
      path_eval)

text \<open>Splitting and joining at the separator.\<close>

lemma split_on_no_sep: "c \<notin> set s \<Longrightarrow> split_on c s = [s]"
  by (induction s) auto

lemma split_on_not_Nil: "split_on c s \<noteq> []"
  by (induction s) (auto split: list.splits)

lemma split_on_append:
  "c \<notin> set a \<Longrightarrow> split_on c (a @ c # b) = a # split_on c b"
  by (induction a) (auto split: list.splits)

lemma split_on_join:
  "xs \<noteq> [] \<Longrightarrow> (\<forall>s\<in>set xs. c \<notin> set s) \<Longrightarrow> split_on c (join_with [c] xs) = xs"
proof (induction "[c]" xs rule: join_with.induct)
  case 1
  then show ?case by simp
next
  case (2 x)
  then show ?case by (simp add: split_on_no_sep)
next
  case (3 x y ys)
  then show ?case by (simp add: split_on_append)
qed

lemma join_with_append:
  "xs \<noteq> [] \<Longrightarrow> ys \<noteq> [] \<Longrightarrow> join_with s (xs @ ys) = join_with s xs @ s @ join_with s ys"
proof (induction s xs rule: join_with.induct)
  case (1 s)
  then show ?case by simp
next
  case (2 s x)
  then show ?case by (cases ys) auto
next
  case (3 s x y zs)
  then show ?case by simp
qed

lemma join_with_Nil_iff:
  "(\<forall>s\<in>set xs. s \<noteq> []) \<Longrightarrow> (join_with sp xs = []) = (xs = [])"
  by (induction sp xs rule: join_with.induct) auto

lemma hd_join_with:
  "xs \<noteq> [] \<Longrightarrow> hd xs \<noteq> [] \<Longrightarrow> hd (join_with sp xs) = hd (hd xs)"
  by (induction sp xs rule: join_with.induct) auto

lemma join_with_last_nonempty:
  "xs \<noteq> [] \<Longrightarrow> last xs \<noteq> [] \<Longrightarrow> join_with sp xs \<noteq> []"
  by (induction sp xs rule: join_with.induct) auto

lemma last_join_with:
  "xs \<noteq> [] \<Longrightarrow> last xs \<noteq> [] \<Longrightarrow> last (join_with sp xs) = last (last xs)"
proof (induction sp xs rule: join_with.induct)
  case (1 s)
  then show ?case by simp
next
  case (2 s x)
  then show ?case by simp
next
  case (3 s x y ys)
  then have ne: "join_with s (y # ys) \<noteq> []" by (intro join_with_last_nonempty) auto
  from 3 have "last (join_with s (y # ys)) = last (last (y # ys))" by simp
  with ne show ?case by simp
qed

text \<open>Normalisation of segments: clean segments are kept, \<open>..\<close> removes the last one.\<close>

lemma normalize_step_clean:
  "clean_segment s \<Longrightarrow> normalize_step al res s = res @ [s]"
  by (simp add: normalize_step_def clean_segment_def)

lemma normalize_step_empty [simp]: "normalize_step al res [] = res"
  by (simp add: normalize_step_def)

lemma normalize_step_dot [simp]: "normalize_step al res ''.'' = res"
  by (simp add: normalize_step_def)

lemma foldl_normalize_clean:
  "list_all clean_segment segs \<Longrightarrow> foldl (normalize_step al) acc segs = acc @ segs"
  by (induction segs arbitrary: acc) (auto simp: normalize_step_clean)

lemma normalize_step_up:
  "clean_segment y \<Longrightarrow> normalize_step al (acc @ [y]) ''..'' = acc"
  by (auto simp: normalize_step_def clean_segment_def)

lemma foldl_normalize_ups:
  "list_all clean_segment xs \<Longrightarrow>
   foldl (normalize_step al) (acc @ xs) (replicate (length xs) ''..'') = acc"
proof (induction xs rule: rev_induct)
  case Nil
  then show ?case by simp
next
  case (snoc y ys)
  then have y: "clean_segment y" and ys: "list_all clean_segment ys" by auto
  have "normalize_step al ((acc @ ys) @ [y]) ''..'' = acc @ ys"
    using y by (rule normalize_step_up)
  with snoc.IH[OF ys] show ?case by simp
qed

lemma drop_common_prefix:
  "drop_common xs ys = (xs', ys') \<Longrightarrow> \<exists>c. xs = c @ xs' \<and> ys = c @ ys'"
proof (induction xs arbitrary: ys)
  case Nil
  then show ?case by (cases ys) auto
next
  case (Cons x xs)
  show ?case
  proof (cases ys)
    case Nil
    with Cons.prems show ?thesis by simp
  next
    case (Cons y zs)
    show ?thesis
    proof (cases "x = y")
      case True
      with Cons.prems Cons have "drop_common xs zs = (xs', ys')" by simp
      from Cons.IH[OF this] obtain c where "xs = c @ xs'" "zs = c @ ys'" by blast
      with True Cons show ?thesis by (intro exI[of _ "x # c"]) simp
    next
      case False
      with Cons.prems Cons show ?thesis by (intro exI[of _ "[]"]) simp
    qed
  qed
qed

lemma drop_common_Nil: "drop_common [] qs = ([], qs)"
  by (cases qs) simp_all

lemma drop_common_append: "drop_common rs (rs @ qs) = ([], qs)"
  by (induction rs) (simp_all add: drop_common_Nil)

text \<open>Resolving and normalising a normalised absolute path with segments appended.\<close>

lemma absolute_of_join:
  "absolute_of segs @ ''/'' @ join_with ''/'' us =
   join_with ''/'' ([] # (if segs = [] then [[]] else segs) @ us)" if "us \<noteq> []"
proof (cases "segs = []")
  case True
  with that show ?thesis by (cases us) (auto simp: absolute_of_def)
next
  case False
  then have "join_with ''/'' (segs @ us) = join_with ''/'' segs @ ''/'' @ join_with ''/'' us"
    using that by (rule join_with_append)
  moreover from False that have "segs @ us \<noteq> []" by simp
  ultimately show ?thesis using False
    by (cases "segs @ us") (auto simp: absolute_of_def)
qed

lemma clean_no_sep: "list_all clean_segment xs \<Longrightarrow> \<forall>s\<in>set xs. CHR ''/'' \<notin> set s"
  by (auto simp: list_all_iff clean_segment_def)

lemma normalize_segments_absolute:
  assumes rs: "list_all clean_segment rs"
      and us: "us \<noteq> []" "\<forall>s\<in>set us. CHR ''/'' \<notin> set s"
  shows "normalize_segments (absolute_of rs @ ''/'' @ join_with ''/'' us) al =
         foldl (normalize_step al) rs us"
proof -
  let ?all = "[] # (if rs = [] then [[]] else rs) @ us"
  have "split_on CHR ''/'' (join_with [CHR ''/''] ?all) = ?all"
    using clean_no_sep[OF rs] us by (intro split_on_join) auto
  then have "normalize_segments (absolute_of rs @ ''/'' @ join_with ''/'' us) al =
             foldl (normalize_step al) [] ?all"
    unfolding normalize_segments_def absolute_of_join[OF us(1)] by simp
  also have "\<dots> = foldl (normalize_step al) rs us"
    using foldl_normalize_clean[OF rs, of al "[]"] by (cases "rs = []") auto
  finally show ?thesis .
qed

lemma absolute_of_facts [simp]:
  "absolute_of segs \<noteq> []" "hd (absolute_of segs) = CHR ''/''" "isAbsolute (absolute_of segs)"
  by (simp_all add: absolute_of_def isAbsolute_def)

lemma resolve_segments_absolute:
  assumes "list_all clean_segment ps"
  shows "resolve_segments cwd (absolute_of ps) = (True, ps)"
proof -
  have "normalize_segments (absolute_of ps @ ''/'' @ join_with ''/'' [[]]) False =
        foldl (normalize_step False) ps [[]]"
    using assms by (intro normalize_segments_absolute) auto
  then have "normalize_segments (absolute_of ps @ ''/'') False = ps" by simp
  then show ?thesis by (simp add: resolve_segments_def Let_def)
qed

lemma normalize_absolute_join:
  assumes rs: "list_all clean_segment rs"
      and us: "us \<noteq> []" "\<forall>s\<in>set us. CHR ''/'' \<notin> set s" "last us \<noteq> []"
      and res: "foldl (normalize_step False) rs us = ps"
      and ps: "list_all clean_segment ps"
  shows "normalize (absolute_of rs @ ''/'' @ join_with ''/'' us) = absolute_of ps"
proof -
  let ?p = "absolute_of rs @ ''/'' @ join_with ''/'' us"
  have ne: "join_with ''/'' us \<noteq> []" using us by (intro join_with_last_nonempty)
  have "last (join_with ''/'' us) = last (last us)" using us by (intro last_join_with)
  moreover have "last (last us) \<noteq> CHR ''/''"
    using us by (metis last_in_set)
  ultimately have nl: "last ?p \<noteq> CHR ''/''" using ne by simp
  have hd: "hd ?p = CHR ''/''" by (simp add: absolute_of_def)
  have q: "normalizeString ?p False = join_with ''/'' ps"
    unfolding normalizeString_def using normalize_segments_absolute[OF rs us(1,2)] res by simp
  have emp: "(join_with ''/'' ps = []) = (ps = [])"
    using ps by (intro join_with_Nil_iff) (auto simp: list_all_iff clean_segment_def)
  show ?thesis
    unfolding normalize_def using hd nl q emp
    by (auto simp: Let_def absolute_of_def)
qed

lemma ups_segments:
  assumes "list_all clean_segment ps'" and "s \<in> set (replicate n ''..'' @ ps')"
  shows "s \<noteq> []" "CHR ''/'' \<notin> set s"
proof -
  from assms(2) consider "s = ''..''" | "s \<in> set ps'" by auto
  then show "s \<noteq> []"
  proof cases
    case 1 then show ?thesis by simp
  next
    case 2 with assms(1) show ?thesis by (simp add: list_all_iff clean_segment_def)
  qed
  from assms(2) consider "s = ''..''" | "s \<in> set ps'" by auto
  then show "CHR ''/'' \<notin> set s"
  proof cases
    case 1 then show ?thesis by simp
  next
    case 2 with assms(1) show ?thesis by (simp add: list_all_iff clean_segment_def)
  qed
qed

lemma not_absolute_join:
  assumes us: "us \<noteq> []" and seg: "\<And>s. s \<in> set us \<Longrightarrow> s \<noteq> [] \<and> CHR ''/'' \<notin> set s"
  shows "\<not> isAbsolute (join_with ''/'' us)" "join_with ''/'' us \<noteq> []" "last us \<noteq> []"
proof -
  have lmem: "last us \<in> set us" using us by (rule last_in_set)
  have hmem: "hd us \<in> set us" using us by (rule hd_in_set)
  show lne: "last us \<noteq> []" using seg[OF lmem] by blast
  have hne: "hd us \<noteq> []" using seg[OF hmem] by blast
  have hns: "CHR ''/'' \<notin> set (hd us)" using seg[OF hmem] by blast
  show "join_with ''/'' us \<noteq> []" using us lne by (rule join_with_last_nonempty)
  have e: "hd (join_with ''/'' us) = hd (hd us)" using us hne by (rule hd_join_with)
  have "hd (hd us) \<in> set (hd us)" using hne by (rule hd_in_set)
  with hns have "hd (hd us) \<noteq> CHR ''/''" by metis
  with e show "\<not> isAbsolute (join_with ''/'' us)" by (simp add: isAbsolute_def)
qed

lemma toAbsolutePath_relative_form:
  assumes rs: "list_all clean_segment rs" and ps: "list_all clean_segment ps"
      and dc: "drop_common rs ps = (rs', ps')" and ne: "rs \<noteq> ps"
  shows "toAbsolutePath (Some (absolute_of rs))
           (join_with ''/'' (replicate (length rs') ''..'' @ ps')) = absolute_of ps"
proof -
  define us where "us = replicate (length rs') ''..'' @ ps'"
  from drop_common_prefix[OF dc] obtain c where c: "rs = c @ rs'" "ps = c @ ps'" by blast
  have cl: "list_all clean_segment c" "list_all clean_segment rs'" "list_all clean_segment ps'"
    using rs ps unfolding c by simp_all
  have "rs' \<noteq> [] \<or> ps' \<noteq> []" using c ne by auto
  then have us: "us \<noteq> []" unfolding us_def by auto
  have seg: "\<And>s. s \<in> set us \<Longrightarrow> s \<noteq> [] \<and> CHR ''/'' \<notin> set s"
    unfolding us_def using ups_segments[OF cl(3)] by blast
  note j = not_absolute_join[OF us seg]
  have nosep: "\<forall>s\<in>set us. CHR ''/'' \<notin> set s" using seg by blast
  have "foldl (normalize_step False) (c @ rs') us =
        foldl (normalize_step False)
          (foldl (normalize_step False) (c @ rs') (replicate (length rs') ''..'')) ps'"
    unfolding us_def by (rule foldl_append)
  also have "\<dots> = foldl (normalize_step False) c ps'"
    by (simp only: foldl_normalize_ups[OF cl(2)])
  also have "\<dots> = c @ ps'" using cl(3) by (rule foldl_normalize_clean)
  finally have res: "foldl (normalize_step False) rs us = ps" unfolding c .
  have n: "normalize (absolute_of rs @ ''/'' @ join_with ''/'' us) = absolute_of ps"
    using rs us nosep j(3) res ps by (rule normalize_absolute_join)
  have "path_join [absolute_of rs, join_with ''/'' us] =
        normalize (absolute_of rs @ ''/'' @ join_with ''/'' us)"
    using j(2) by (simp add: path_join_def)
  with n j(1) show ?thesis unfolding us_def[symmetric]
    by (simp add: toAbsolutePath_def truthy_def)
qed

lemma toAbsolutePath_dot:
  assumes rs: "list_all clean_segment rs"
  shows "toAbsolutePath (Some (absolute_of rs)) ''.'' = absolute_of rs"
proof -
  have f: "foldl (normalize_step False) rs [''.''] = rs" by simp
  have u: "[''.''] \<noteq> []" "\<forall>s\<in>set [''.'']. CHR ''/'' \<notin> set s" "last [''.''] \<noteq> []"
    by simp_all
  have "normalize (absolute_of rs @ ''/'' @ join_with ''/'' [''.'']) = absolute_of rs"
    using rs u f rs by (rule normalize_absolute_join)
  then show ?thesis
    by (simp add: toAbsolutePath_def truthy_def isAbsolute_def path_join_def)
qed

text \<open>
  For a normalised absolute workspace folder and a normalised absolute path, wherever
  the path lies, \<open>toAbsolutePath\<close> undoes \<open>toRelativePath\<close>.
\<close>

lemma roundtrip_normalised:
  assumes rs: "list_all clean_segment rs" and ps: "list_all clean_segment ps"
  shows "toAbsolutePath (Some (absolute_of rs))
           (toRelativePath cwd (Some (absolute_of rs)) (absolute_of ps)) = absolute_of ps"
proof (cases "startsWith (absolute_of ps) (absolute_of rs)")
  case False
  then show ?thesis by (simp add: toRelativePath_def toAbsolutePath_def truthy_def)
next
  case True
  show ?thesis
  proof (cases "rs = ps")
    case same: True
    have "toRelativePath cwd (Some (absolute_of rs)) (absolute_of rs) = ''.''"
      by (simp add: toRelativePath_def truthy_def relative_def startsWith_def)
    with toAbsolutePath_dot[OF rs] show ?thesis unfolding same[symmetric] by simp
  next
    case diff: False
    obtain rs' ps' where dc: "drop_common rs ps = (rs', ps')" by (cases "drop_common rs ps") auto
    define us where "us = replicate (length rs') ''..'' @ ps'"
    from drop_common_prefix[OF dc] obtain c where c: "rs = c @ rs'" "ps = c @ ps'" by blast
    have cl: "list_all clean_segment ps'" using ps unfolding c by simp
    have "rs' \<noteq> [] \<or> ps' \<noteq> []" using c diff by auto
    then have us: "us \<noteq> []" unfolding us_def by auto
    have seg: "\<And>s. s \<in> set us \<Longrightarrow> s \<noteq> [] \<and> CHR ''/'' \<notin> set s"
      unfolding us_def using ups_segments[OF cl] by blast
    note j = not_absolute_join[OF us seg]
    have neq: "absolute_of rs \<noteq> absolute_of ps"
    proof
      assume "absolute_of rs = absolute_of ps"
      then have "resolve_segments cwd (absolute_of rs) = resolve_segments cwd (absolute_of ps)"
        by simp
      then show False
        unfolding resolve_segments_absolute[OF rs] resolve_segments_absolute[OF ps]
        using diff by simp
    qed
    have "relative cwd (absolute_of rs) (absolute_of ps) = join_with ''/'' us"
      unfolding relative_def resolve_segments_absolute[OF rs] resolve_segments_absolute[OF ps]
        us_def using neq dc by simp
    then have "toRelativePath cwd (Some (absolute_of rs)) (absolute_of ps) = join_with ''/'' us"
      using True j(2) by (simp add: toRelativePath_def truthy_def Let_def)
    with toAbsolutePath_relative_form[OF rs ps dc diff] show ?thesis
      unfolding us_def by simp
  qed
qed

text \<open>
  The stored form: \<open>.\<close> for the workspace folder itself, the segments below the folder
  for a path below it, the path itself when \<open>startsWith\<close> fails.
\<close>

lemma toRelativePath_root:
  "r \<noteq> [] \<Longrightarrow> toRelativePath cwd (Some r) r = ''.''"
  by (simp add: toRelativePath_def truthy_def relative_def startsWith_def)

lemma toRelativePath_below_root:
  assumes rs: "list_all clean_segment rs" and qs: "list_all clean_segment qs" and ne: "qs \<noteq> []"
  shows "toRelativePath cwd (Some (absolute_of rs)) (absolute_of (rs @ qs)) = join_with ''/'' qs"
proof -
  have rq: "list_all clean_segment (rs @ qs)" using rs qs by simp
  have pre: "startsWith (absolute_of (rs @ qs)) (absolute_of rs)"
  proof (cases "rs = []")
    case True
    then show ?thesis by (simp add: startsWith_def absolute_of_def)
  next
    case False
    then have "join_with ''/'' (rs @ qs) = join_with ''/'' rs @ ''/'' @ join_with ''/'' qs"
      using ne by (rule join_with_append)
    then show ?thesis by (simp add: startsWith_def absolute_of_def)
  qed
  have seg: "\<And>s. s \<in> set qs \<Longrightarrow> s \<noteq> [] \<and> CHR ''/'' \<notin> set s"
    using qs by (simp add: list_all_iff clean_segment_def)
  note j = not_absolute_join[OF ne seg]
  have neq: "absolute_of rs \<noteq> absolute_of (rs @ qs)"
  proof
    assume "absolute_of rs = absolute_of (rs @ qs)"
    then have "resolve_segments cwd (absolute_of rs) = resolve_segments cwd (absolute_of (rs @ qs))"
      by simp
    then show False
      unfolding resolve_segments_absolute[OF rs] resolve_segments_absolute[OF rq]
      using ne by simp
  qed
  have "relative cwd (absolute_of rs) (absolute_of (rs @ qs)) = join_with ''/'' qs"
    unfolding relative_def resolve_segments_absolute[OF rs] resolve_segments_absolute[OF rq]
    using neq by (simp add: drop_common_append)
  then show ?thesis using pre j(2) by (simp add: toRelativePath_def truthy_def Let_def)
qed

lemma toRelativePath_elsewhere:
  "\<not> startsWith p r \<Longrightarrow> toRelativePath cwd (Some r) p = p"
  by (simp add: toRelativePath_def)

text \<open>
  Claim C6.  With the workspace folder \<open>/w\<close>, the path \<open>/w2/file\<close> is neither the folder
  nor below it, yet \<open>startsWith\<close> accepts it and \<open>toRelativePath\<close> stores it as the
  relative path \<open>../w2/file\<close>, not as an absolute path.  \<open>toAbsolutePath\<close> still gives
  the path back.
\<close>

theorem outside_path_stored_relative:
  "\<not> startsWith ''/w2/file'' (''/w'' @ sep) \<and> ''/w2/file'' \<noteq> ''/w'' \<and>
   toRelativePath cwd (Some ''/w'') ''/w2/file'' = ''../w2/file'' \<and>
   \<not> isAbsolute (toRelativePath cwd (Some ''/w'') ''/w2/file'') \<and>
   toAbsolutePath (Some ''/w'') (toRelativePath cwd (Some ''/w'') ''/w2/file'') = ''/w2/file''"
proof -
  have rel: "toRelativePath cwd (Some ''/w'') ''/w2/file'' = ''../w2/file''"
    by (simp add: toRelativePath_def truthy_def startsWith_def relative_eval)
  show ?thesis unfolding rel
    by (simp add: toAbsolutePath_def truthy_def startsWith_def sep_def isAbsolute_def path_eval)
qed

end
